theory Spec2Isabelle
  imports Main "HOL-Library.Word"
begin

section \<open>FM radio HAL control: shallow embedding of fmradiohalcontrol.cpp\<close>

text \<open>
  The controller object \<^verbatim>\<open>FMRadioHalControl\<close> is embedded as a record of its member
  variables together with the part of \<^verbatim>\<open>HalPrivate\<close> the control logic reads
  (tuner handle, device handle, band limits, RDS standard).  Every member function becomes
  a state transformer.  Signals emitted towards Qt and commands issued to the HAL tuner are
  appended, in program order, to the \<open>effects\<close> trace of the state.  The integer results
  of the HAL calls are inputs of each operation (record \<open>hal_ret\<close>): every operation calls
  each HAL function at most once.

  C++ \<^verbatim>\<open>unsigned\<close> and \<^verbatim>\<open>int\<close> are both 32-bit words; \<open>+\<close>, \<open>-\<close>, \<open>*\<close> wrap, \<open>div\<close>
  and \<open>\<le>\<close> on words are the unsigned operations, and a signed comparison reads the word
  with \<open>sint\<close>.  Conversions between \<^verbatim>\<open>unsigned\<close> and \<^verbatim>\<open>int\<close> keep the bits.
  Logging (\<^verbatim>\<open>qCDebug\<close>, \<^verbatim>\<open>qCWarning\<close>) has no effect on the state and is left out.
\<close>

subsection \<open>Data model\<close>

type_synonym u32 = "32 word"
type_synonym i32 = "32 word"

text \<open>A \<^verbatim>\<open>QString\<close> is a sequence of 16-bit \<^verbatim>\<open>QChar\<close> code units.\<close>

type_synonym QChar = "16 word"
type_synonym QString = "QChar list"

datatype SearchMode = SearchFast | SearchGetStationId

datatype radio_direction = RADIO_DIRECTION_UP | RADIO_DIRECTION_DOWN

datatype radio_rds = RADIO_RDS_NONE | RADIO_RDS_WORLD | RADIO_RDS_US

datatype radio_band = RADIO_BAND_AM | RADIO_BAND_FM | RADIO_BAND_FM_HD | RADIO_BAND_AM_HD

datatype TunerState = StoppedState | ActiveState

datatype TunerError = NoError | ResourceError | OpenError | OutOfRangeError

datatype RdsError = RdsNoError | RdsResourceError | RdsOpenError

text \<open>
  Signals of the class (first group) and calls into the HAL (second group).  The payload of
  \<open>ProgramTypeNameChanged\<close> is the pair (table, index) that \<^verbatim>\<open>programTypeNameString\<close>
  looks up, not the translated text.
\<close>

datatype effect =
    StateChanged TunerState
  | FrequencyChanged i32
  | StereoStatusChanged bool
  | SearchingChanged bool
  | ErrorSignal TunerError
  | StationFound i32 QString
  | AntennaConnectedChanged bool
  | StationIdChanged QString
  | ProgramTypeChanged u32
  | ProgramTypeNameChanged nat nat
  | StationNameChanged QString
  | RadioTextChanged QString
  | RdsErrorSignal RdsError
  | SeekNextChannel
  | HalOpenTuner
  | HalCloseTuner
  | HalScan radio_direction
  | HalTune u32
  | HalCancel

text \<open>Return codes of the HAL calls made during one operation.\<close>

record hal_ret =
  open_ret :: int
  close_ret :: int
  scan_ret :: int
  tune_ret :: int
  cancel_ret :: int

record control =
  radiohw :: bool
  tuner :: bool
  lower_limit :: u32
  upper_limit :: u32
  fm_rds :: radio_rds
  m_error :: TunerError
  m_rdsError :: RdsError
  m_tunerReady :: bool
  m_antennaConnected :: bool
  m_stereoEnabled :: bool
  m_currentFreq :: u32
  m_searchMode :: SearchMode
  seekTimer_active :: bool
  m_searching :: bool
  m_searchAll :: bool
  m_searchAllLast :: bool
  m_searchWaitForRDS :: bool
  m_firstFoundFrequency :: u32
  m_searchRange :: i32
  m_lastFrequency :: u32
  m_stationId :: QString
  m_stationName :: QString
  m_programType :: u32
  m_radioText :: QString
  effects :: "effect list"

subsection \<open>Unit conversion\<close>

text \<open>
  \<^verbatim>\<open>#define FREQ_HAL_TO_QT(f) (static_cast<int>(f) * 1000)\<close> and
  \<^verbatim>\<open>#define FREQ_QT_TO_HAL(f) (static_cast<unsigned int>(f) / 1000)\<close>.
\<close>

definition FREQ_HAL_TO_QT :: "u32 \<Rightarrow> i32" where
  "FREQ_HAL_TO_QT f = f * 1000"

definition FREQ_QT_TO_HAL :: "i32 \<Rightarrow> u32" where
  "FREQ_QT_TO_HAL f = f div 1000"

subsection \<open>Helpers of the class\<close>

definition emit :: "effect \<Rightarrow> control \<Rightarrow> control" where
  "emit e s = s\<lparr>effects := effects s @ [e]\<rparr>"

definition tunerEnabled :: "control \<Rightarrow> bool" where
  "tunerEnabled s \<longleftrightarrow> tuner s \<and> m_tunerReady s"

definition tunerState :: "control \<Rightarrow> TunerState" where
  "tunerState s = (if tunerEnabled s then ActiveState else StoppedState)"

definition frequency :: "control \<Rightarrow> i32" where
  "frequency s = FREQ_HAL_TO_QT (m_currentFreq s)"

text \<open>The table \<^verbatim>\<open>rbdsTypes\<close> of \<^verbatim>\<open>programTypeValue\<close>.\<close>

definition rbdsTypes :: "u32 list" where
  "rbdsTypes = [0, 1, 3, 4, 32, 11, 33, 34, 35, 36, 25, 27, 37, 38, 24, 39,
                40, 41, 42, 43, 44, 45, 46, 47, 0, 0, 0, 0, 0, 16, 30, 31]"

definition programTypeValue :: "nat \<Rightarrow> u32 \<Rightarrow> u32" where
  "programTypeValue rdsStandard type =
     (let t = (if 32 \<le> type then 0 else type)
      in if rdsStandard = 0 then t else rbdsTypes ! unat t)"

definition programTypeNameString :: "nat \<Rightarrow> u32 \<Rightarrow> effect" where
  "programTypeNameString rdsStandard type =
     (let t = (if 32 \<le> type then 0 else type)
      in ProgramTypeNameChanged (if rdsStandard = 0 then 0 else 1) (unat t))"

definition resetRDS :: "control \<Rightarrow> control" where
  "resetRDS s =
     (let s1 = (if m_radioText s \<noteq> []
                then emit (RadioTextChanged []) (s\<lparr>m_radioText := []\<rparr>) else s);
          s2 = (if m_stationName s1 \<noteq> []
                then emit (StationNameChanged []) (s1\<lparr>m_stationName := []\<rparr>) else s1);
          s3 = (if m_programType s2 \<noteq> 0
                then emit (programTypeNameString 0 0)
                       (emit (ProgramTypeChanged (programTypeValue 0 0))
                          (s2\<lparr>m_programType := 0\<rparr>))
                else s2)
      in if m_stationId s3 \<noteq> []
         then emit (StationIdChanged []) (s3\<lparr>m_stationId := []\<rparr>) else s3)"

definition setSearching :: "bool \<Rightarrow> control \<Rightarrow> control" where
  "setSearching searching s =
     (let s1 = (if \<not> searching \<and> seekTimer_active s
                then s\<lparr>seekTimer_active := False\<rparr> else s)
      in if m_searching s1 \<noteq> searching
         then emit (SearchingChanged searching) (s1\<lparr>m_searching := searching\<rparr>)
         else s1)"

definition setStereoEnabled :: "bool \<Rightarrow> control \<Rightarrow> control" where
  "setStereoEnabled enabled s =
     (if enabled \<noteq> m_stereoEnabled s
      then emit (StereoStatusChanged enabled) (s\<lparr>m_stereoEnabled := enabled\<rparr>)
      else s)"

definition setError :: "TunerError \<Rightarrow> control \<Rightarrow> control" where
  "setError newError s =
     (if newError \<noteq> m_error s
      then emit (ErrorSignal newError) (s\<lparr>m_error := newError\<rparr>)
      else s)"

definition setTuning :: "hal_ret \<Rightarrow> control \<Rightarrow> control" where
  "setTuning hw s =
     (if \<not> tuner s \<or> m_currentFreq s = 0 then s
      else emit (HalTune (m_currentFreq s)) s)"

subsection \<open>Seek, cancel, watchdog, full-band search\<close>

definition seek :: "hal_ret \<Rightarrow> radio_direction \<Rightarrow> control \<Rightarrow> control" where
  "seek hw direction s =
     (if \<not> tunerEnabled s then s
      else
        let s1 = (if \<not> m_searchAll s then resetRDS s else s);
            s2 = s1\<lparr>seekTimer_active := True\<rparr>;
            s3 = emit (HalScan direction) s2
        in if scan_ret hw = 0
           then (if \<not> m_searchAll s3 then setSearching True s3 else s3)
           else s3)"

definition searchForward :: "hal_ret \<Rightarrow> control \<Rightarrow> control" where
  "searchForward hw s = seek hw RADIO_DIRECTION_UP s"

definition searchBackward :: "hal_ret \<Rightarrow> control \<Rightarrow> control" where
  "searchBackward hw s = seek hw RADIO_DIRECTION_DOWN s"

definition cancelSearch :: "hal_ret \<Rightarrow> control \<Rightarrow> control" where
  "cancelSearch hw s =
     (if \<not> m_searching s \<or> \<not> tunerEnabled s then s
      else
        let s1 = emit HalCancel s;
            s2 = s1\<lparr>m_searchAll := False, m_searchAllLast := False,
                     m_searchWaitForRDS := False\<rparr>
        in setSearching False s2)"

definition handleSeekTimeout :: "hal_ret \<Rightarrow> control \<Rightarrow> control" where
  "handleSeekTimeout hw s =
     (if m_searchAll s then
        (if m_searchMode s = SearchFast then cancelSearch hw s
         else if m_firstFoundFrequency s = 0 then cancelSearch hw s
         else searchForward hw
                (emit (StationFound (FREQ_HAL_TO_QT (m_currentFreq s)) (m_stationId s)) s))
      else cancelSearch hw s)"

definition searchAllStations :: "hal_ret \<Rightarrow> SearchMode \<Rightarrow> control \<Rightarrow> control" where
  "searchAllStations hw searchMode s =
     (let s1 = resetRDS s;
          s2 = s1\<lparr>m_searchMode :=
                     (if fm_rds s1 = RADIO_RDS_NONE then SearchFast else searchMode)\<rparr>;
          s3 = (if m_searchMode s2 = SearchGetStationId
                then s2\<lparr>m_searchWaitForRDS := True\<rparr> else s2);
          s4 = s3\<lparr>m_searchAll := True, m_searchAllLast := False,
                     m_firstFoundFrequency := 0,
                     m_searchRange := upper_limit s3 - lower_limit s3,
                     m_lastFrequency := m_currentFreq s3 - lower_limit s3\<rparr>
      in searchForward hw (setSearching True s4))"

subsection \<open>Tuned events\<close>

text \<open>
  The distance accounted for one step of a sweep, as \<^verbatim>\<open>tunedSearchAll\<close> computes
  \<^verbatim>\<open>reduce\<close> from \<^verbatim>\<open>channelRelative\<close> and \<^verbatim>\<open>m_lastFrequency\<close>.
\<close>

definition reduce_of :: "control \<Rightarrow> u32 \<Rightarrow> i32" where
  "reduce_of s channel =
     (let channelRelative = channel - lower_limit s
      in if m_lastFrequency s \<le> channelRelative
         then channelRelative - m_lastFrequency s
         else upper_limit s - lower_limit s - m_lastFrequency s + channelRelative)"

text \<open>
  The tail of \<^verbatim>\<open>tunedSearchAll\<close> that runs once the remaining range is used up
  (from \<^verbatim>\<open>if (m_firstFoundFrequency != channel)\<close> to the end of the function).
\<close>

definition tunedSearchAll_exhausted :: "u32 \<Rightarrow> control \<Rightarrow> bool \<times> control" where
  "tunedSearchAll_exhausted channel s =
     (if m_firstFoundFrequency s \<noteq> channel then
        (if m_searchMode s = SearchFast
         then (False,
               (emit (StationFound (FREQ_HAL_TO_QT (m_firstFoundFrequency s)) (m_stationId s)) s)
                 \<lparr>m_searchAllLast := True\<rparr>)
         else (True, s\<lparr>m_searchAllLast := True\<rparr>))
      else (False, s\<lparr>m_searchAllLast := True\<rparr>))"

definition tunedSearchAll :: "hal_ret \<Rightarrow> u32 \<Rightarrow> control \<Rightarrow> bool \<times> control" where
  "tunedSearchAll hw channel s =
     (let reduce = reduce_of s channel;
          s1 = (if 0 < m_firstFoundFrequency s then
                  (if m_searchMode s = SearchFast
                   then emit (StationFound (FREQ_HAL_TO_QT channel) (m_stationId s)) s
                   else s)
                else s\<lparr>m_firstFoundFrequency := channel\<rparr>);
          s2 = s1\<lparr>m_searchRange := m_searchRange s1 - reduce,
                     m_lastFrequency := channel - lower_limit s1\<rparr>
      in if 0 < sint (m_searchRange s2) then
           (if m_searchMode s2 = SearchFast then (True, searchForward hw s2) else (True, s2))
         else tunedSearchAll_exhausted channel s2)"

definition handleTuned_done :: "bool \<Rightarrow> control \<Rightarrow> control" where
  "handleTuned_done stereo s =
     (let s1 = (if m_searchAllLast s
                then setSearching False
                       (s\<lparr>m_searchAllLast := False, m_searchAll := False,
                           m_searchWaitForRDS := False\<rparr>)
                else s);
          s2 = emit (FrequencyChanged (FREQ_HAL_TO_QT (m_currentFreq s1))) s1
      in setStereoEnabled stereo (setSearching False s2))"

definition handleTuned :: "hal_ret \<Rightarrow> u32 \<Rightarrow> bool \<Rightarrow> control \<Rightarrow> control" where
  "handleTuned hw channel stereo s =
     (let s0 = s\<lparr>m_currentFreq := channel\<rparr>
      in if \<not> m_searchAllLast s0 \<and> m_searchAll s0 then
           (case tunedSearchAll hw channel s0 of
              (True, s1) \<Rightarrow> s1
            | (False, s1) \<Rightarrow> handleTuned_done stereo s1)
         else handleTuned_done stereo s0)"

subsection \<open>Setting the frequency\<close>

definition setFrequency :: "hal_ret \<Rightarrow> i32 \<Rightarrow> control \<Rightarrow> control" where
  "setFrequency hw newFrequency s =
     (let frequency = FREQ_QT_TO_HAL newFrequency
      in if frequency = m_currentFreq s then s
         else
           let f1 = (if frequency < lower_limit s then lower_limit s else frequency);
               f2 = (if upper_limit s < f1 then upper_limit s else f1);
               s1 = s\<lparr>m_currentFreq := f2\<rparr>
           in if \<not> tunerEnabled s1 then s1
              else setTuning hw (resetRDS s1))"

subsection \<open>Session life cycle and the remaining event handlers\<close>

definition start :: "hal_ret \<Rightarrow> control \<Rightarrow> control" where
  "start hw s =
     (if \<not> radiohw s \<or> tuner s then s
      else
        let s1 = s\<lparr>m_searching := False, m_searchAll := False, m_searchAllLast := False\<rparr>;
            s2 = emit HalOpenTuner s1
        in s2\<lparr>tuner := (open_ret hw = 0)\<rparr>)"

definition stop :: "hal_ret \<Rightarrow> control \<Rightarrow> control" where
  "stop hw s =
     (if \<not> radiohw s \<or> \<not> tuner s then s
      else
        let s1 = cancelSearch hw s;
            s2 = s1\<lparr>m_tunerReady := False\<rparr>;
            s3 = (emit HalCloseTuner s2)\<lparr>tuner := False\<rparr>
        in emit (StateChanged StoppedState) s3)"

definition handleHwFailure :: "hal_ret \<Rightarrow> control \<Rightarrow> control" where
  "handleHwFailure hw s = stop hw (setError ResourceError s)"

definition handleConfig :: "hal_ret \<Rightarrow> radio_band \<Rightarrow> bool \<Rightarrow> control \<Rightarrow> control" where
  "handleConfig hw band stereo s =
     (let s1 = (if \<not> m_tunerReady s
                then emit (StateChanged ActiveState)
                       (setTuning hw (setError NoError (s\<lparr>m_tunerReady := True\<rparr>)))
                else s)
      in if band = RADIO_BAND_FM then setStereoEnabled stereo s1 else s1)"

definition handleAntenna :: "bool \<Rightarrow> control \<Rightarrow> control" where
  "handleAntenna connected s =
     (if connected \<noteq> m_antennaConnected s
      then emit (AntennaConnectedChanged connected) (s\<lparr>m_antennaConnected := connected\<rparr>)
      else s)"

subsection \<open>Metadata (RDS) events\<close>

text \<open>
  The pattern of the sanitiser is the negated character class
  \<^verbatim>\<open>[^a-zA-Z0-9 -_,;.:!#%&/()=?@\<close>\<open>\<pounds>\<close>\<^verbatim>\<open>$+]\<close>.  Inside the class, \<^verbatim>\<open>a-z\<close>, \<^verbatim>\<open>A-Z\<close>,
  \<^verbatim>\<open>0-9\<close> and also \<^verbatim>\<open> -_\<close> (space to underscore) are ranges; the other members are
  single characters.  \<open>regExp_class\<close> is the class without the negation: the characters
  the pattern does not match and \<^verbatim>\<open>QString::remove\<close> therefore keeps.
\<close>

definition regExp_ranges :: "(QChar \<times> QChar) list" where
  "regExp_ranges = [(0x61, 0x7A), (0x41, 0x5A), (0x30, 0x39), (0x20, 0x5F)]"

definition regExp_singles :: "QChar list" where
  "regExp_singles = [0x2C, 0x3B, 0x2E, 0x3A, 0x21, 0x23, 0x25, 0x26, 0x2F, 0x28, 0x29,
                     0x3D, 0x3F, 0x40, 0xA3, 0x24, 0x2B]"

definition regExp_class :: "QChar \<Rightarrow> bool" where
  "regExp_class c \<longleftrightarrow>
     list_ex (\<lambda>(lo, hi). lo \<le> c \<and> c \<le> hi) regExp_ranges \<or> c \<in> set regExp_singles"

definition remove_regExp :: "QString \<Rightarrow> QString" where
  "remove_regExp str = filter regExp_class str"

text \<open>
  \<^verbatim>\<open>QString::trimmed\<close> of the Qt library removes the characters for which
  \<^verbatim>\<open>QChar::isSpace\<close> holds from both ends: the ASCII controls TAB to CR, the space,
  NEL, the no-break space and the Unicode separators.
\<close>

definition QChar_isSpace :: "QChar \<Rightarrow> bool" where
  "QChar_isSpace c \<longleftrightarrow>
     c = 0x20 \<or> (0x09 \<le> c \<and> c \<le> 0x0D) \<or> c = 0x85 \<or> c = 0xA0 \<or> c = 0x1680 \<or>
     (0x2000 \<le> c \<and> c \<le> 0x200A) \<or> c = 0x2028 \<or> c = 0x2029 \<or> c = 0x202F \<or>
     c = 0x205F \<or> c = 0x3000"

definition trimmed :: "QString \<Rightarrow> QString" where
  "trimmed str = rev (dropWhile QChar_isSpace (rev (dropWhile QChar_isSpace str)))"

definition sanitize :: "QString \<Rightarrow> QString" where
  "sanitize str = trimmed (remove_regExp str)"

datatype radio_metadata_key =
    RADIO_METADATA_KEY_RDS_PI
  | RADIO_METADATA_KEY_RDS_PS
  | RADIO_METADATA_KEY_RDS_PTY
  | RADIO_METADATA_KEY_RBDS_PTY
  | RADIO_METADATA_KEY_TITLE
  | RADIO_METADATA_KEY_OTHER

text \<open>
  A text value is given as the \<^verbatim>\<open>QString\<close> that \<^verbatim>\<open>QString::fromUtf8\<close> decodes from
  the record's bytes.
\<close>

datatype radio_metadata_value =
    RADIO_METADATA_TYPE_TEXT QString
  | RADIO_METADATA_TYPE_INT u32
  | RADIO_METADATA_TYPE_OTHER

text \<open>
  One record of a metadata block: the return code of \<^verbatim>\<open>metadata_get_at_index\<close> for
  its index, its key and its value.  A block is the return code of \<^verbatim>\<open>metadata_check\<close>
  and its records; \<^verbatim>\<open>metadata_get_count\<close> is their number.
\<close>

type_synonym radio_metadata_entry = "int \<times> radio_metadata_key \<times> radio_metadata_value"

record radio_metadata =
  check_ret :: int
  entries :: "radio_metadata_entry list"

text \<open>
  The signal \<^verbatim>\<open>seekNextChannel\<close> is connected to \<^verbatim>\<open>searchForward\<close>.  It is emitted from
  the callback of the hardware, so that call is queued: the trace records the signal, and
  \<open>searchForward\<close> is a later operation of its own.
\<close>

definition metadata_text :: "radio_metadata_key \<Rightarrow> QString \<Rightarrow> control \<Rightarrow> control" where
  "metadata_text key raw s =
     (let str = sanitize raw in
      case key of
        RADIO_METADATA_KEY_RDS_PI \<Rightarrow>
          (if m_stationId s \<noteq> str then
             (let s1 = s\<lparr>m_stationId := str\<rparr>
              in if m_searchWaitForRDS s1
                 then emit SeekNextChannel
                        (emit (StationFound (FREQ_HAL_TO_QT (m_currentFreq s1)) (m_stationId s1)) s1)
                 else emit (StationIdChanged (m_stationId s1)) s1)
           else s)
      | RADIO_METADATA_KEY_RDS_PS \<Rightarrow>
          (if m_stationName s \<noteq> str
           then emit (StationNameChanged str) (s\<lparr>m_stationName := str\<rparr>) else s)
      | RADIO_METADATA_KEY_TITLE \<Rightarrow>
          (if m_radioText s \<noteq> str
           then emit (RadioTextChanged str) (s\<lparr>m_radioText := str\<rparr>) else s)
      | _ \<Rightarrow> s)"

definition metadata_int :: "radio_metadata_key \<Rightarrow> u32 \<Rightarrow> control \<Rightarrow> control" where
  "metadata_int key integer s =
     (case key of
        RADIO_METADATA_KEY_RDS_PTY \<Rightarrow>
          (if m_programType s \<noteq> integer
           then emit (programTypeNameString 0 integer)
                  (emit (ProgramTypeChanged (programTypeValue 0 integer))
                     (s\<lparr>m_programType := integer\<rparr>))
           else s)
      | RADIO_METADATA_KEY_RBDS_PTY \<Rightarrow>
          (if m_programType s \<noteq> integer
           then emit (programTypeNameString 1 integer)
                  (emit (ProgramTypeChanged (programTypeValue 1 integer))
                     (s\<lparr>m_programType := integer\<rparr>))
           else s)
      | _ \<Rightarrow> s)"

fun metadata_loop :: "radio_metadata_entry list \<Rightarrow> control \<Rightarrow> control" where
  "metadata_loop [] s = s"
| "metadata_loop ((ret, key, v) # rest) s =
     (if ret \<noteq> 0 then s
      else metadata_loop rest
             (case v of
                RADIO_METADATA_TYPE_TEXT raw \<Rightarrow> metadata_text key raw s
              | RADIO_METADATA_TYPE_INT integer \<Rightarrow> metadata_int key integer s
              | RADIO_METADATA_TYPE_OTHER \<Rightarrow> s))"

definition handleMetadata :: "radio_metadata option \<Rightarrow> control \<Rightarrow> control" where
  "handleMetadata metadata s =
     (case metadata of
        None \<Rightarrow> s
      | Some md \<Rightarrow>
          if m_rdsError s \<noteq> RdsNoError then s
          else if check_ret md \<noteq> 0 then s
          else metadata_loop (entries md) s)"

subsection \<open>Public operations and event handlers as one step function\<close>

datatype operation =
    SetBand
  | SetFrequency i32
  | SetStereoMode
  | SetVolume
  | SetMuted
  | SetAlternativeFrequenciesEnabled
  | SearchForward
  | SearchBackward
  | SearchAllStations SearchMode
  | CancelSearch
  | Start
  | Stop
  | HandleSeekTimeout
  | HandleHwFailure
  | HandleConfig radio_band bool
  | HandleAntenna bool
  | HandleTuned u32 bool
  | HandleTA bool
  | HandleAFSwitch bool
  | HandleEA bool
  | HandleMetadata "radio_metadata option"

fun step :: "hal_ret \<Rightarrow> operation \<Rightarrow> control \<Rightarrow> control" where
  "step hw SetBand s = s"
| "step hw (SetFrequency f) s = setFrequency hw f s"
| "step hw SetStereoMode s = s"
| "step hw SetVolume s = s"
| "step hw SetMuted s = s"
| "step hw SetAlternativeFrequenciesEnabled s = s"
| "step hw SearchForward s = searchForward hw s"
| "step hw SearchBackward s = searchBackward hw s"
| "step hw (SearchAllStations mode) s = searchAllStations hw mode s"
| "step hw CancelSearch s = cancelSearch hw s"
| "step hw Start s = start hw s"
| "step hw Stop s = stop hw s"
| "step hw HandleSeekTimeout s = handleSeekTimeout hw s"
| "step hw HandleHwFailure s = handleHwFailure hw s"
| "step hw (HandleConfig band stereo) s = handleConfig hw band stereo s"
| "step hw (HandleAntenna connected) s = handleAntenna connected s"
| "step hw (HandleTuned channel stereo) s = handleTuned hw channel stereo s"
| "step hw (HandleTA enabled) s = s"
| "step hw (HandleAFSwitch enabled) s = s"
| "step hw (HandleEA enabled) s = s"
| "step hw (HandleMetadata metadata) s = handleMetadata metadata s"

subsection \<open>Concrete states\<close>

text \<open>
  The state the constructor leaves when the device opens and no band of the device matches:
  the member initialisers and \<^verbatim>\<open>setRadioConfigFallback\<close> (ITU-1 FM, 87500 to 108000 kHz).
\<close>

definition constructed :: control where
  "constructed =
     \<lparr>radiohw = True, tuner = False, lower_limit = 87500, upper_limit = 108000,
      fm_rds = RADIO_RDS_WORLD, m_error = NoError, m_rdsError = RdsNoError,
      m_tunerReady = False, m_antennaConnected = True, m_stereoEnabled = True,
      m_currentFreq = 0, m_searchMode = SearchFast, seekTimer_active = False,
      m_searching = False, m_searchAll = False, m_searchAllLast = False,
      m_searchWaitForRDS = False, m_firstFoundFrequency = 0, m_searchRange = 0,
      m_lastFrequency = 0, m_stationId = [], m_stationName = [], m_programType = 0,
      m_radioText = [], effects = []\<rparr>"

definition hal_ok :: hal_ret where
  "hal_ok = \<lparr>open_ret = 0, close_ret = 0, scan_ret = 0, tune_ret = 0, cancel_ret = 0\<rparr>"

definition hal_fail :: hal_ret where
  "hal_fail = \<lparr>open_ret = -1, close_ret = -1, scan_ret = -1, tune_ret = -1, cancel_ret = -1\<rparr>"

text \<open>An open and ready tuner on 90000 kHz with nothing emitted yet.\<close>

definition tuned_90000 :: control where
  "tuned_90000 = constructed\<lparr>tuner := True, m_tunerReady := True, m_currentFreq := 90000\<rparr>"

subsection \<open>Reading the trace\<close>

text \<open>What an operation appended to the trace, and that it only appended.\<close>

definition emitted_since :: "control \<Rightarrow> control \<Rightarrow> effect list" where
  "emitted_since s s' = drop (length (effects s)) (effects s')"

definition extends_trace :: "control \<Rightarrow> control \<Rightarrow> bool" where
  "extends_trace s s' \<longleftrightarrow> take (length (effects s)) (effects s') = effects s"

text \<open>The signals \<open>resetRDS\<close> emits in a given state.\<close>

definition resetRDS_events :: "control \<Rightarrow> effect list" where
  "resetRDS_events s =
     (if m_radioText s \<noteq> [] then [RadioTextChanged []] else []) @
     (if m_stationName s \<noteq> [] then [StationNameChanged []] else []) @
     (if m_programType s \<noteq> 0 then [ProgramTypeChanged 0, ProgramTypeNameChanged 0 0] else []) @
     (if m_stationId s \<noteq> [] then [StationIdChanged []] else [])"

text \<open>States in the middle of a sweep, after the first station (89000 kHz) was found.\<close>

definition sweeping_id :: control where
  "sweeping_id = tuned_90000\<lparr>m_searching := True, m_searchAll := True,
     m_searchMode := SearchGetStationId, m_searchWaitForRDS := True,
     m_firstFoundFrequency := 89000, m_searchRange := 1500, m_lastFrequency := 2500,
     seekTimer_active := True\<rparr>"

definition sweeping_fast :: control where
  "sweeping_fast = sweeping_id\<lparr>m_searchMode := SearchFast, m_searchWaitForRDS := False\<rparr>"

definition sweeping_id_none :: control where
  "sweeping_id_none = sweeping_id\<lparr>m_firstFoundFrequency := 0\<rparr>"

subsection \<open>The allow-list of the sanitiser, in words\<close>

text \<open>
  The characters the specification lets through: the letters \<^verbatim>\<open>A-Z\<close> and \<^verbatim>\<open>a-z\<close>, the
  digits, the space, and the fixed set of punctuation marks that the pattern of the
  sanitiser writes out after the digits and the space, in its order:
  \<^verbatim>\<open>- _ , ; . : ! # % & / ( ) = ? @\<close>, the pound sign, \<^verbatim>\<open>$\<close> and \<^verbatim>\<open>+\<close>.
\<close>

definition is_letter :: "QChar \<Rightarrow> bool" where
  "is_letter c \<longleftrightarrow> (0x41 \<le> c \<and> c \<le> 0x5A) \<or> (0x61 \<le> c \<and> c \<le> 0x7A)"

definition is_digit :: "QChar \<Rightarrow> bool" where
  "is_digit c \<longleftrightarrow> 0x30 \<le> c \<and> c \<le> 0x39"

definition punctuation :: "QChar list" where
  "punctuation = [0x2D, 0x5F, 0x2C, 0x3B, 0x2E, 0x3A, 0x21, 0x23, 0x25, 0x26, 0x2F, 0x28, 0x29,
                  0x3D, 0x3F, 0x40, 0xA3, 0x24, 0x2B]"

definition allow_list :: "QChar \<Rightarrow> bool" where
  "allow_list c \<longleftrightarrow> is_letter c \<or> is_digit c \<or> c = 0x20 \<or> c \<in> set punctuation"

text \<open>
  The characters between the space and the underscore that are not on the allow-list:
  \<^verbatim>\<open>" ' * < > [ \ ] ^\<close>.  The pattern does not write them.
\<close>

definition range_only :: "QChar list" where
  "range_only = [0x22, 0x27, 0x2A, 0x3C, 0x3E, 0x5B, 0x5C, 0x5D, 0x5E]"

text \<open>
  The text \<^verbatim>\<open><b>"'*[\]^\<close>, and a metadata block that passes the consistency check and
  holds it as its one record, a station name.
\<close>

definition slip_text :: QString where
  "slip_text = [0x3C, 0x62, 0x3E, 0x22, 0x27, 0x2A, 0x5B, 0x5C, 0x5D, 0x5E]"

definition slip_event :: "radio_metadata option" where
  "slip_event =
     Some \<lparr>check_ret = 0,
           entries = [(0, RADIO_METADATA_KEY_RDS_PS, RADIO_METADATA_TYPE_TEXT slip_text)]\<rparr>"

subsection \<open>The band invariant\<close>

text \<open>The current native frequency lies within the band limits.\<close>

definition in_band :: "control \<Rightarrow> bool" where
  "in_band s \<longleftrightarrow> lower_limit s \<le> m_currentFreq s \<and> m_currentFreq s \<le> upper_limit s"

text \<open>An operation left the current frequency and the band limits as they were.\<close>

definition same_freq_and_band :: "control \<Rightarrow> control \<Rightarrow> bool" where
  "same_freq_and_band s s' \<longleftrightarrow>
     m_currentFreq s' = m_currentFreq s \<and> lower_limit s' = lower_limit s \<and>
     upper_limit s' = upper_limit s"

text \<open>
  The condition under which one operation ends with the current frequency inside the band:
  for \<open>setFrequency\<close>, that the converted request differs from the current frequency or
  that the frequency was inside before; for a tuned event, that the reported channel is
  inside; for every other operation, that the frequency was inside before.
\<close>

fun keeps_in_band :: "control \<Rightarrow> operation \<Rightarrow> bool" where
  "keeps_in_band s (SetFrequency f) = (FREQ_QT_TO_HAL f \<noteq> m_currentFreq s \<or> in_band s)"
| "keeps_in_band s (HandleTuned channel stereo) =
     (lower_limit s \<le> channel \<and> channel \<le> upper_limit s)"
| "keeps_in_band s _ = in_band s"

text \<open>
  A fast sweep started on 90000 kHz, itself a station, after the first station (95000 kHz)
  was found: the next tuned event, back on 90000 kHz, uses up the remaining range.
\<close>

definition last_step_fast :: control where
  "last_step_fast = tuned_90000\<lparr>m_currentFreq := 95000, m_searching := True,
     m_searchAll := True, m_searchMode := SearchFast, m_firstFoundFrequency := 95000,
     m_searchRange := 15500, m_lastFrequency := 7500, seekTimer_active := True\<rparr>"

subsection \<open>A whole sweep\<close>








definition relative :: "control \<Rightarrow> u32 \<Rightarrow> nat" where
  "relative s c = unat c - unat (lower_limit s)"







section \<open>Properties\<close>

subsection \<open>Auxiliary facts\<close>

lemma sint32_eq:
  "sint (w::32 word) = (if uint w < 2147483648 then uint w else uint w - 4294967296)"
proof -
  have b: "0 \<le> uint w" "uint w < 4294967296"
    using uint_lt2p [of w] by simp_all
  have s: "sint w = (uint w + 2147483648) mod 4294967296 - 2147483648"
    using int_word_sint [of "uint w", where ?'a = 32] by simp
  show ?thesis
  proof (cases "uint w < 2147483648")
    case True
    with b have "(uint w + 2147483648) mod 4294967296 = uint w + 2147483648"
      by (simp add: mod_pos_pos_trivial)
    with True s show ?thesis by simp
  next
    case False
    have "(uint w + 2147483648) mod 4294967296
          = (uint w - 2147483648 + 4294967296) mod 4294967296"
      by (simp add: add.commute)
    also have "\<dots> = (uint w - 2147483648) mod 4294967296"
      by (rule mod_add_self2)
    also have "\<dots> = uint w - 2147483648"
      using False b by (simp add: mod_pos_pos_trivial)
    finally show ?thesis using False s by simp
  qed
qed

lemma resetRDS_eq:
  "resetRDS s = s\<lparr>m_stationId := [], m_stationName := [], m_programType := 0, m_radioText := [],
                  effects := effects s @ resetRDS_events s\<rparr>"
  by (simp add: resetRDS_def resetRDS_events_def emit_def programTypeValue_def
      programTypeNameString_def Let_def)

lemma seek_eq:
  "seek hw direction s =
     (if \<not> tunerEnabled s then s
      else if m_searchAll s
      then s\<lparr>seekTimer_active := True, effects := effects s @ [HalScan direction]\<rparr>
      else (resetRDS s)\<lparr>seekTimer_active := True,
             m_searching := (if scan_ret hw = 0 then True else m_searching s),
             effects := effects s @ resetRDS_events s @ [HalScan direction] @
               (if scan_ret hw = 0 \<and> \<not> m_searching s then [SearchingChanged True] else [])\<rparr>)"
  by (simp add: seek_def resetRDS_eq emit_def setSearching_def Let_def)

lemma SearchingChanged_notin_resetRDS_events:
  "SearchingChanged b \<notin> set (resetRDS_events s)"
  by (simp add: resetRDS_events_def)

lemma cancelSearch_active:
  "m_searching s \<Longrightarrow> tunerEnabled s \<Longrightarrow>
   cancelSearch hw s =
     s\<lparr>seekTimer_active := False, m_searching := False, m_searchAll := False,
       m_searchAllLast := False, m_searchWaitForRDS := False,
       effects := effects s @ [HalCancel, SearchingChanged False]\<rparr>"
  by (simp add: cancelSearch_def setSearching_def emit_def Let_def tunerEnabled_def)

lemma seek_sweep_fields:
  "m_searchRange (seek hw d s) = m_searchRange s"
  "m_lastFrequency (seek hw d s) = m_lastFrequency s"
  "m_firstFoundFrequency (seek hw d s) = m_firstFoundFrequency s"
  "m_searchAll (seek hw d s) = m_searchAll s"
  "m_searchAllLast (seek hw d s) = m_searchAllLast s"
  "m_searchMode (seek hw d s) = m_searchMode s"
  "m_currentFreq (seek hw d s) = m_currentFreq s"
  "lower_limit (seek hw d s) = lower_limit s"
  "upper_limit (seek hw d s) = upper_limit s"
  by (simp_all add: seek_eq resetRDS_eq)

lemma tunedSearchAll_exhausted_fields:
  "m_searchRange (snd (tunedSearchAll_exhausted channel s)) = m_searchRange s"
  "m_lastFrequency (snd (tunedSearchAll_exhausted channel s)) = m_lastFrequency s"
  by (simp_all add: tunedSearchAll_exhausted_def emit_def)

lemma tunedSearchAll_range:
  "m_searchRange (snd (tunedSearchAll hw channel s)) = m_searchRange s - reduce_of s channel"
  by (simp add: tunedSearchAll_def Let_def searchForward_def seek_sweep_fields
      tunedSearchAll_exhausted_fields emit_def)

lemma tunedSearchAll_last:
  "m_lastFrequency (snd (tunedSearchAll hw channel s)) = channel - lower_limit s"
  by (simp add: tunedSearchAll_def Let_def searchForward_def seek_sweep_fields
      tunedSearchAll_exhausted_fields emit_def)

lemma setSearching_fields:
  "m_searchRange (setSearching b s) = m_searchRange s"
  "m_lastFrequency (setSearching b s) = m_lastFrequency s"
  "m_currentFreq (setSearching b s) = m_currentFreq s"
  "lower_limit (setSearching b s) = lower_limit s"
  "upper_limit (setSearching b s) = upper_limit s"
  by (simp_all add: setSearching_def emit_def Let_def)

lemma handleTuned_done_fields:
  "m_searchRange (handleTuned_done stereo s) = m_searchRange s"
  "m_lastFrequency (handleTuned_done stereo s) = m_lastFrequency s"
  "m_currentFreq (handleTuned_done stereo s) = m_currentFreq s"
  "lower_limit (handleTuned_done stereo s) = lower_limit s"
  "upper_limit (handleTuned_done stereo s) = upper_limit s"
  by (simp_all add: handleTuned_done_def Let_def setStereoEnabled_def emit_def setSearching_fields)

lemma handleTuned_sweep:
  "m_searchAll s \<Longrightarrow> \<not> m_searchAllLast s \<Longrightarrow>
   handleTuned hw channel stereo s =
     (let r = tunedSearchAll hw channel (s\<lparr>m_currentFreq := channel\<rparr>)
      in if fst r then snd r else handleTuned_done stereo (snd r))"
  by (simp add: handleTuned_def Let_def split: prod.splits bool.splits)

lemma FREQ_QT_TO_HAL_negative:
  assumes "sint f < 0" shows "2147483 \<le> FREQ_QT_TO_HAL f"
proof -
  have b: "0 \<le> uint f" "uint f < 4294967296"
    using uint_lt2p [of f] by simp_all
  have "2147483648 \<le> uint f"
    using assms b by (auto simp: sint32_eq split: if_splits)
  then have "2147483 \<le> uint f div 1000" by simp
  then have "uint (2147483 :: 32 word) \<le> uint (f div 1000)"
    by (simp add: uint_div)
  then show ?thesis by (simp add: FREQ_QT_TO_HAL_def word_le_def)
qed

lemma setTuning_currentFreq: "m_currentFreq (setTuning hw s) = m_currentFreq s"
  by (simp add: setTuning_def emit_def)

lemma resetRDS_currentFreq: "m_currentFreq (resetRDS s) = m_currentFreq s"
  by (simp add: resetRDS_eq)

lemma setFrequency_currentFreq:
  "m_currentFreq (setFrequency hw newFrequency s) =
     (let frequency = FREQ_QT_TO_HAL newFrequency
      in if frequency = m_currentFreq s then m_currentFreq s
         else
           let f1 = (if frequency < lower_limit s then lower_limit s else frequency)
           in if upper_limit s < f1 then upper_limit s else f1)"
  by (simp add: setFrequency_def Let_def setTuning_currentFreq resetRDS_currentFreq)

lemma regExp_class_eq: "regExp_class c \<longleftrightarrow> allow_list c \<or> c \<in> set range_only"
proof -
  have r: "(32 \<le> n \<and> n \<le> 95) = (n \<in> set [32..<96])" for n :: nat
    unfolding set_upt by auto
  show ?thesis
    unfolding regExp_class_def allow_list_def is_letter_def is_digit_def punctuation_def
      range_only_def regExp_ranges_def regExp_singles_def
    apply (simp add: word_le_nat_alt word_unat_eq_iff)
    apply (simp only: r)
    apply simp
    apply auto
    done
qed

lemma sanitize_eq:
  "sanitize str = trimmed (filter (\<lambda>c. allow_list c \<or> c \<in> set range_only) str)"
  by (simp add: sanitize_def remove_regExp_def regExp_class_eq [abs_def])

lemma last_dropWhile_nonempty: "dropWhile P zs \<noteq> [] \<Longrightarrow> last (dropWhile P zs) = last zs"
  by (induction zs) (auto split: if_splits)

lemma trimmed_ends:
  assumes "trimmed str \<noteq> []"
  shows "\<not> QChar_isSpace (hd (trimmed str)) \<and> \<not> QChar_isSpace (last (trimmed str))"
proof -
  let ?ys = "dropWhile QChar_isSpace str"
  let ?zs = "dropWhile QChar_isSpace (rev ?ys)"
  have t: "trimmed str = rev ?zs" by (simp add: trimmed_def)
  with assms have zs: "?zs \<noteq> []" by simp
  have ys: "?ys \<noteq> []"
  proof
    assume e: "?ys = []"
    have "?zs = []" unfolding e by simp
    with zs show False by simp
  qed
  have "last (trimmed str) = hd ?zs" using zs by (simp add: t last_rev)
  moreover have "\<not> QChar_isSpace (hd ?zs)" using zs by (rule hd_dropWhile)
  moreover have "hd (trimmed str) = last ?zs" using zs by (simp add: t hd_rev)
  moreover have "last ?zs = last (rev ?ys)" using zs by (rule last_dropWhile_nonempty)
  moreover have "last (rev ?ys) = hd ?ys" using ys by (simp add: last_rev)
  moreover have "\<not> QChar_isSpace (hd ?ys)" using ys by (rule hd_dropWhile)
  ultimately show ?thesis by simp
qed

lemma trimmed_subset: "set (trimmed str) \<subseteq> set str"
  unfolding trimmed_def by (metis set_rev set_dropWhileD subsetI)

lemma metadata_text_stores_sanitized:
  "m_stationId (metadata_text RADIO_METADATA_KEY_RDS_PI raw s) = sanitize raw"
  "m_stationName (metadata_text RADIO_METADATA_KEY_RDS_PS raw s) = sanitize raw"
  "m_radioText (metadata_text RADIO_METADATA_KEY_TITLE raw s) = sanitize raw"
  by (simp_all add: metadata_text_def Let_def emit_def)

lemma sfb_refl: "same_freq_and_band s s"
  by (simp add: same_freq_and_band_def)

lemma sfb_trans:
  "same_freq_and_band s s' \<Longrightarrow> same_freq_and_band s' s'' \<Longrightarrow> same_freq_and_band s s''"
  by (simp add: same_freq_and_band_def)

lemma sfb_helpers:
  "same_freq_and_band s (emit e s)"
  "same_freq_and_band s (resetRDS s)"
  "same_freq_and_band s (setSearching b s)"
  "same_freq_and_band s (setStereoEnabled b s)"
  "same_freq_and_band s (setError err s)"
  "same_freq_and_band s (setTuning hw s)"
  "same_freq_and_band s (seek hw d s)"
  "same_freq_and_band s (handleAntenna b s)"
  by (simp_all add: same_freq_and_band_def emit_def resetRDS_eq setSearching_def
      setStereoEnabled_def setError_def setTuning_def seek_sweep_fields handleAntenna_def Let_def)

lemma sfb_cancelSearch: "same_freq_and_band s (cancelSearch hw s)"
  by (simp add: same_freq_and_band_def cancelSearch_def Let_def setSearching_fields emit_def)

lemma sfb_handleSeekTimeout: "same_freq_and_band s (handleSeekTimeout hw s)"
  using sfb_cancelSearch [of s hw]
  by (simp add: handleSeekTimeout_def searchForward_def)
     (simp add: same_freq_and_band_def seek_sweep_fields emit_def)

lemma sfb_searchAllStations: "same_freq_and_band s (searchAllStations hw mode s)"
  by (simp add: same_freq_and_band_def searchAllStations_def Let_def searchForward_def
      seek_sweep_fields setSearching_fields resetRDS_eq)

lemma sfb_start: "same_freq_and_band s (start hw s)"
  by (simp add: same_freq_and_band_def start_def Let_def emit_def)

lemma sfb_stop: "same_freq_and_band s (stop hw s)"
  using sfb_cancelSearch [of s hw]
  by (simp add: same_freq_and_band_def stop_def Let_def emit_def)

lemma sfb_handleHwFailure: "same_freq_and_band s (handleHwFailure hw s)"
  unfolding handleHwFailure_def
  by (rule sfb_trans [OF sfb_helpers(5) sfb_stop])

lemma sfb_handleConfig: "same_freq_and_band s (handleConfig hw band stereo s)"
  by (simp add: same_freq_and_band_def handleConfig_def Let_def emit_def setStereoEnabled_def
      setTuning_def setError_def)

lemma sfb_metadata_text: "same_freq_and_band s (metadata_text key raw s)"
  by (cases key) (simp_all add: same_freq_and_band_def metadata_text_def Let_def emit_def)

lemma sfb_metadata_int: "same_freq_and_band s (metadata_int key i s)"
  by (cases key) (simp_all add: same_freq_and_band_def metadata_int_def Let_def emit_def)

lemma sfb_metadata_loop: "same_freq_and_band s (metadata_loop es s)"
proof (induction es arbitrary: s)
  case Nil
  show ?case by (simp add: sfb_refl)
next
  case (Cons e es)
  obtain ret key v where e: "e = (ret, key, v)" by (cases e)
  show ?case
  proof (cases v)
    case (RADIO_METADATA_TYPE_TEXT raw)
    then show ?thesis
      using sfb_trans [OF sfb_metadata_text Cons.IH] by (simp add: e sfb_refl)
  next
    case (RADIO_METADATA_TYPE_INT i)
    then show ?thesis
      using sfb_trans [OF sfb_metadata_int Cons.IH] by (simp add: e sfb_refl)
  next
    case RADIO_METADATA_TYPE_OTHER
    then show ?thesis
      using Cons.IH by (simp add: e sfb_refl)
  qed
qed

lemma sfb_handleMetadata: "same_freq_and_band s (handleMetadata md s)"
  by (simp add: handleMetadata_def sfb_refl sfb_metadata_loop split: option.splits)

lemma setFrequency_limits:
  "lower_limit (setFrequency hw f s) = lower_limit s"
  "upper_limit (setFrequency hw f s) = upper_limit s"
  by (simp_all add: setFrequency_def Let_def setTuning_def emit_def resetRDS_eq)

lemma tunedSearchAll_limits:
  "lower_limit (snd (tunedSearchAll hw channel s)) = lower_limit s"
  "upper_limit (snd (tunedSearchAll hw channel s)) = upper_limit s"
  "m_currentFreq (snd (tunedSearchAll hw channel s)) = m_currentFreq s"
  by (simp_all add: tunedSearchAll_def tunedSearchAll_exhausted_def Let_def searchForward_def
      seek_sweep_fields emit_def)

lemma handleTuned_eq:
  "handleTuned hw channel stereo s =
     (let s0 = s\<lparr>m_currentFreq := channel\<rparr>
      in if \<not> m_searchAllLast s \<and> m_searchAll s
         then (let r = tunedSearchAll hw channel s0
               in if fst r then snd r else handleTuned_done stereo (snd r))
         else handleTuned_done stereo s0)"
  by (simp add: handleTuned_def Let_def split: prod.splits bool.splits)

lemma handleTuned_band:
  "m_currentFreq (handleTuned hw channel stereo s) = channel"
  "lower_limit (handleTuned hw channel stereo s) = lower_limit s"
  "upper_limit (handleTuned hw channel stereo s) = upper_limit s"
  by (simp_all add: handleTuned_eq Let_def handleTuned_done_fields tunedSearchAll_limits)


lemma sfb_in_band: "same_freq_and_band s s' \<Longrightarrow> in_band s \<Longrightarrow> in_band s'"
  by (simp add: same_freq_and_band_def in_band_def)

lemma setFrequency_in_band:
  assumes "lower_limit s \<le> upper_limit s"
    and "FREQ_QT_TO_HAL f \<noteq> m_currentFreq s \<or> in_band s"
  shows "in_band (setFrequency hw f s)"
  using assms
  by (auto simp: in_band_def setFrequency_limits setFrequency_currentFreq Let_def)

lemma seek_sweeping:
  "m_searchAll s \<Longrightarrow>
   seek hw d s = (if tunerEnabled s
                  then s\<lparr>seekTimer_active := True, effects := effects s @ [HalScan d]\<rparr>
                  else s)"
  by (simp add: seek_eq)

lemma tunedSearchAll_fast_fields:
  assumes "m_searchMode s = SearchFast" and "m_searchAll s"
  shows
    "fst (tunedSearchAll hw channel s) = (0 < sint (m_searchRange s - reduce_of s channel))"
    "m_firstFoundFrequency (snd (tunedSearchAll hw channel s)) =
       (if 0 < m_firstFoundFrequency s then m_firstFoundFrequency s else channel)"
    "m_searchAllLast (snd (tunedSearchAll hw channel s)) =
       (m_searchAllLast s \<or> \<not> 0 < sint (m_searchRange s - reduce_of s channel))"
    "m_searchAll (snd (tunedSearchAll hw channel s))"
    "m_searchMode (snd (tunedSearchAll hw channel s)) = SearchFast"
    "m_searching (snd (tunedSearchAll hw channel s)) = m_searching s"
    "m_stationId (snd (tunedSearchAll hw channel s)) = m_stationId s"
    "m_stereoEnabled (snd (tunedSearchAll hw channel s)) = m_stereoEnabled s"
    "m_searchWaitForRDS (snd (tunedSearchAll hw channel s)) = m_searchWaitForRDS s"
  using assms
  by (simp_all add: tunedSearchAll_def tunedSearchAll_exhausted_def Let_def emit_def
      searchForward_def seek_sweeping tunerEnabled_def)

lemma tunedSearchAll_fast_effects:
  assumes "m_searchMode s = SearchFast" and "m_searchAll s"
  shows "effects (snd (tunedSearchAll hw channel s)) =
     effects s @
     (if 0 < m_firstFoundFrequency s
      then [StationFound (FREQ_HAL_TO_QT channel) (m_stationId s)] else []) @
     (if 0 < sint (m_searchRange s - reduce_of s channel)
      then (if tunerEnabled s then [HalScan RADIO_DIRECTION_UP] else [])
      else (if 0 < m_firstFoundFrequency s \<and> m_firstFoundFrequency s \<noteq> channel
            then [StationFound (FREQ_HAL_TO_QT (m_firstFoundFrequency s)) (m_stationId s)]
            else []))"
  using assms
  by (auto simp: tunedSearchAll_def tunedSearchAll_exhausted_def Let_def emit_def
      searchForward_def seek_sweeping tunerEnabled_def word_gt_0)

lemma handleTuned_done_flags:
  "\<not> m_searching (handleTuned_done stereo s)"
  "\<not> m_searchAllLast (handleTuned_done stereo s)"
  "m_searchAll (handleTuned_done stereo s) = (m_searchAll s \<and> \<not> m_searchAllLast s)"
  "m_searchWaitForRDS (handleTuned_done stereo s) = (m_searchWaitForRDS s \<and> \<not> m_searchAllLast s)"
  "\<not> seekTimer_active (handleTuned_done stereo s)"
  "m_stereoEnabled (handleTuned_done stereo s) = stereo"
  by (simp_all add: handleTuned_done_def Let_def setSearching_def setStereoEnabled_def emit_def)

lemma handleTuned_done_effects:
  "effects (handleTuned_done stereo s) =
     effects s @
     (if m_searchAllLast s \<and> m_searching s then [SearchingChanged False] else []) @
     [FrequencyChanged (FREQ_HAL_TO_QT (m_currentFreq s))] @
     (if \<not> m_searchAllLast s \<and> m_searching s then [SearchingChanged False] else []) @
     (if stereo \<noteq> m_stereoEnabled s then [StereoStatusChanged stereo] else [])"
  by (simp add: handleTuned_done_def Let_def setSearching_def setStereoEnabled_def emit_def)


lemma reduce_of_currentFreq:
  "reduce_of (s\<lparr>m_currentFreq := c\<rparr>) channel = reduce_of s channel"
  by (simp add: reduce_of_def Let_def)

lemma handleTuned_fast_fst:
  assumes "m_searchMode s = SearchFast" and "m_searchAll s"
  shows "fst (tunedSearchAll hw channel (s\<lparr>m_currentFreq := channel\<rparr>))
         = (0 < sint (m_searchRange s - reduce_of s channel))"
  using assms by (simp add: tunedSearchAll_fast_fields reduce_of_currentFreq)

lemma handleTuned_fast_final:
  assumes "m_searchMode s = SearchFast" and "m_searchAll s" and "\<not> m_searchAllLast s"
    and "sint (m_searchRange s - reduce_of s channel) \<le> 0"
  shows "handleTuned hw channel stereo s =
           handleTuned_done stereo (snd (tunedSearchAll hw channel (s\<lparr>m_currentFreq := channel\<rparr>)))"
  using assms by (simp add: handleTuned_eq Let_def handleTuned_fast_fst)

























subsection \<open>Unit conversion round trip\<close>

text \<open>
  C7.  For every non-negative external frequency \<open>f\<close> (an \<^verbatim>\<open>int\<close> in Hz), converting to
  the native unit with \<open>FREQ_QT_TO_HAL\<close> and back with \<open>FREQ_HAL_TO_QT\<close> gives \<open>f\<close> rounded
  down to a multiple of 1000, read as a signed integer.
\<close>

theorem freq_round_trip:
  "0 \<le> sint f \<Longrightarrow> sint (FREQ_HAL_TO_QT (FREQ_QT_TO_HAL f)) = (sint f div 1000) * 1000"
proof -
  assume nonneg: "0 \<le> sint f"
  have b: "0 \<le> uint f" "uint f < 4294967296"
    using uint_lt2p [of f] by simp_all
  have su: "sint f = uint f" and lt: "uint f < 2147483648"
    using nonneg b by (auto simp: sint32_eq split: if_splits)
  have d: "uint (f div 1000) = uint f div 1000" by (simp add: uint_div)
  have r: "0 \<le> uint f div 1000 * 1000" "uint f div 1000 * 1000 \<le> uint f"
    using b by (simp_all add: pos_imp_zdiv_nonneg_iff)
  have m: "uint (f div 1000 * 1000) = uint f div 1000 * 1000"
    using lt r d by (simp add: uint_word_ariths mod_pos_pos_trivial)
  have "sint (f div 1000 * 1000) = uint (f div 1000 * 1000)"
    using lt r m by (simp add: sint32_eq)
  then show ?thesis by (simp add: FREQ_HAL_TO_QT_def FREQ_QT_TO_HAL_def m su)
qed

theorem freq_round_trip_witness:
  "0 \<le> sint (98765432 :: i32) \<and>
   sint (FREQ_HAL_TO_QT (FREQ_QT_TO_HAL 98765432)) = 98765000"
  using freq_round_trip [of 98765432] by simp

subsection \<open>A seek whose scan command fails\<close>

text \<open>
  C9.  When the HAL scan command of \<open>seek\<close> returns a non-zero code, \<open>m_searching\<close> keeps
  the value it had before the call, and no \<open>searchingChanged\<close> signal is among the effects
  the call appends to the trace.
\<close>

theorem seek_scan_failure_keeps_searching:
  "scan_ret hw \<noteq> 0 \<Longrightarrow>
   m_searching (seek hw direction s) = m_searching s \<and>
   extends_trace s (seek hw direction s) \<and>
   (\<forall>b. SearchingChanged b \<notin> set (emitted_since s (seek hw direction s)))"
  by (simp add: seek_eq resetRDS_eq extends_trace_def emitted_since_def
      SearchingChanged_notin_resetRDS_events)

theorem seek_scan_failure_keeps_searching_witness:
  "scan_ret hal_fail \<noteq> 0 \<and>
   m_searching (seek hal_fail RADIO_DIRECTION_UP tuned_90000) = m_searching tuned_90000 \<and>
   emitted_since tuned_90000 (seek hal_fail RADIO_DIRECTION_UP tuned_90000)
     = [HalScan RADIO_DIRECTION_UP]"
  using seek_scan_failure_keeps_searching [of hal_fail RADIO_DIRECTION_UP tuned_90000]
  by (simp add: seek_eq resetRDS_eq resetRDS_events_def emitted_since_def hal_fail_def
      tuned_90000_def constructed_def tunerEnabled_def)

subsection \<open>Cancelling when nothing is being searched\<close>

text \<open>
  C8.  Calling \<open>cancelSearch\<close> when \<open>m_searching\<close> is false, or when the tuner is not open
  and ready, returns the state as it was: no member variable changes, the timer is left
  alone, and nothing is added to the trace of signals and HAL commands.
\<close>

theorem cancelSearch_noop:
  "\<not> m_searching s \<or> \<not> tunerEnabled s \<Longrightarrow> cancelSearch hw s = s"
  by (auto simp: cancelSearch_def)

theorem cancelSearch_noop_witness:
  "\<not> m_searching tuned_90000 \<and> cancelSearch hal_ok tuned_90000 = tuned_90000 \<and>
   \<not> tunerEnabled constructed \<and>
   cancelSearch hal_ok (constructed\<lparr>m_searching := True\<rparr>)
     = constructed\<lparr>m_searching := True\<rparr>"
  using cancelSearch_noop [of tuned_90000 hal_ok]
    cancelSearch_noop [of "constructed\<lparr>m_searching := True\<rparr>" hal_ok]
  by (simp add: tuned_90000_def constructed_def tunerEnabled_def)

subsection \<open>Range accounting of a sweep step\<close>

text \<open>
  C1.  For a tuned event delivering \<open>channel\<close>, the step handler \<open>tunedSearchAll\<close> takes
  \<open>relative = channel - lower_limit\<close> and the forward distance since the previous step:
  \<open>relative - m_lastFrequency\<close> when \<open>relative \<ge> m_lastFrequency\<close>, and
  \<open>(upper_limit - lower_limit) - m_lastFrequency + relative\<close> otherwise.  It leaves
  \<open>m_searchRange\<close> decremented by exactly that distance and \<open>m_lastFrequency\<close> equal to
  \<open>relative\<close>, on every path through the function; and so does \<open>handleTuned\<close> whenever
  a sweep is active (\<open>m_searchAll\<close> set, \<open>m_searchAllLast\<close> clear).  The arithmetic is that
  of the 32-bit machine integers.
\<close>

theorem tunedSearchAll_range_accounting:
  "(let relative = channel - lower_limit s;
        distance = (if m_lastFrequency s \<le> relative
                    then relative - m_lastFrequency s
                    else (upper_limit s - lower_limit s) - m_lastFrequency s + relative)
    in m_searchRange (snd (tunedSearchAll hw channel s)) = m_searchRange s - distance \<and>
       m_lastFrequency (snd (tunedSearchAll hw channel s)) = relative \<and>
       (m_searchAll s \<and> \<not> m_searchAllLast s \<longrightarrow>
          m_searchRange (handleTuned hw channel stereo s) = m_searchRange s - distance \<and>
          m_lastFrequency (handleTuned hw channel stereo s) = relative))"
  by (simp add: Let_def handleTuned_sweep tunedSearchAll_range tunedSearchAll_last
      handleTuned_done_fields reduce_of_def)

theorem tunedSearchAll_range_accounting_witness:
  "m_searchAll (searchAllStations hal_ok SearchFast tuned_90000) \<and>
   \<not> m_searchAllLast (searchAllStations hal_ok SearchFast tuned_90000) \<and>
   m_searchRange (searchAllStations hal_ok SearchFast tuned_90000) = 20500 \<and>
   m_searchRange
     (handleTuned hal_ok 95000 True (searchAllStations hal_ok SearchFast tuned_90000)) = 15500 \<and>
   m_lastFrequency
     (handleTuned hal_ok 95000 True (searchAllStations hal_ok SearchFast tuned_90000)) = 7500"
  using tunedSearchAll_range_accounting
    [of 95000 "searchAllStations hal_ok SearchFast tuned_90000" hal_ok True]
  by (simp add: searchAllStations_def Let_def searchForward_def seek_sweep_fields
      setSearching_def emit_def resetRDS_eq tuned_90000_def constructed_def)

subsection \<open>Negative frequencies\<close>

text \<open>
  C10.  A negative external frequency passed to \<open>setFrequency\<close> is converted through an
  unsigned cast, so its native value is at least 2147483, above the upper limit of any band
  whose upper limit is below that value; the current frequency is then set to the upper band
  limit, not the lower one.  The function returns before clamping when the converted value
  equals the current native frequency, so that case is excluded.
\<close>

theorem setFrequency_negative_clamps_to_upper:
  assumes "sint newFrequency < 0"
    and "upper_limit s < 2147483"
    and "m_currentFreq s \<noteq> FREQ_QT_TO_HAL newFrequency"
  shows "upper_limit s < FREQ_QT_TO_HAL newFrequency \<and>
         m_currentFreq (setFrequency hw newFrequency s) = upper_limit s"
proof -
  have above: "upper_limit s < FREQ_QT_TO_HAL newFrequency"
    using FREQ_QT_TO_HAL_negative [OF assms(1)] assms(2) by simp
  then have "upper_limit s < lower_limit s" if "FREQ_QT_TO_HAL newFrequency < lower_limit s"
    using that by simp
  with above assms(3) show ?thesis
    by (auto simp: setFrequency_currentFreq Let_def)
qed

theorem setFrequency_negative_clamps_to_upper_witness:
  "sint (- 5000 :: i32) < 0 \<and> upper_limit tuned_90000 < 2147483 \<and>
   m_currentFreq tuned_90000 \<noteq> FREQ_QT_TO_HAL (- 5000) \<and>
   FREQ_QT_TO_HAL (- 5000) = 4294962 \<and>
   m_currentFreq (setFrequency hal_ok (- 5000) tuned_90000) = 108000"
  using setFrequency_negative_clamps_to_upper [of "- 5000" tuned_90000 hal_ok]
  by (simp add: FREQ_QT_TO_HAL_def tuned_90000_def constructed_def)

subsection \<open>The watchdog\<close>

text \<open>
  C4.  When the seek timer fires: with no sweep active, \<open>handleSeekTimeout\<close> cancels the
  search; with a fast sweep active it cancels; with a station-id sweep active and no channel
  found yet (\<open>m_firstFoundFrequency = 0\<close>) it cancels; otherwise it emits \<open>stationFound\<close>
  for the current channel with the station id held at that moment and calls
  \<open>searchForward\<close>, which on an open and ready tuner issues a scan upwards.  The last
  conjunct says what cancelling does to a search in progress on an open and ready tuner.
\<close>

theorem handleSeekTimeout_cases:
  "(\<not> m_searchAll s \<longrightarrow> handleSeekTimeout hw s = cancelSearch hw s) \<and>
   (m_searchAll s \<and> m_searchMode s = SearchFast \<longrightarrow>
      handleSeekTimeout hw s = cancelSearch hw s) \<and>
   (m_searchAll s \<and> m_searchMode s = SearchGetStationId \<and> m_firstFoundFrequency s = 0 \<longrightarrow>
      handleSeekTimeout hw s = cancelSearch hw s) \<and>
   (m_searchAll s \<and> m_searchMode s = SearchGetStationId \<and> m_firstFoundFrequency s \<noteq> 0 \<longrightarrow>
      handleSeekTimeout hw s =
        searchForward hw
          (emit (StationFound (FREQ_HAL_TO_QT (m_currentFreq s)) (m_stationId s)) s) \<and>
      (tunerEnabled s \<longrightarrow>
         emitted_since s (handleSeekTimeout hw s) =
           [StationFound (FREQ_HAL_TO_QT (m_currentFreq s)) (m_stationId s),
            HalScan RADIO_DIRECTION_UP])) \<and>
   (m_searching s \<and> tunerEnabled s \<longrightarrow>
      cancelSearch hw s =
        s\<lparr>seekTimer_active := False, m_searching := False, m_searchAll := False,
          m_searchAllLast := False, m_searchWaitForRDS := False,
          effects := effects s @ [HalCancel, SearchingChanged False]\<rparr>)"
  by (simp add: handleSeekTimeout_def cancelSearch_active searchForward_def seek_eq emit_def
      emitted_since_def tunerEnabled_def)

theorem handleSeekTimeout_cases_witness:
  "(\<not> m_searchAll tuned_90000 \<and>
    handleSeekTimeout hal_ok tuned_90000 = cancelSearch hal_ok tuned_90000) \<and>
   (m_searchAll sweeping_fast \<and> m_searchMode sweeping_fast = SearchFast \<and>
    handleSeekTimeout hal_ok sweeping_fast = cancelSearch hal_ok sweeping_fast) \<and>
   (m_searchAll sweeping_id_none \<and> m_searchMode sweeping_id_none = SearchGetStationId \<and>
    m_firstFoundFrequency sweeping_id_none = 0 \<and>
    handleSeekTimeout hal_ok sweeping_id_none = cancelSearch hal_ok sweeping_id_none) \<and>
   (m_searchAll sweeping_id \<and> m_searchMode sweeping_id = SearchGetStationId \<and>
    m_firstFoundFrequency sweeping_id \<noteq> 0 \<and> tunerEnabled sweeping_id \<and>
    emitted_since sweeping_id (handleSeekTimeout hal_ok sweeping_id) =
      [StationFound 90000000 [], HalScan RADIO_DIRECTION_UP]) \<and>
   (m_searching sweeping_fast \<and> tunerEnabled sweeping_fast \<and>
    \<not> m_searching (cancelSearch hal_ok sweeping_fast))"
proof -
  have a: "\<not> m_searchAll tuned_90000"
    by (simp add: tuned_90000_def constructed_def)
  have b: "m_searchAll sweeping_fast" "m_searchMode sweeping_fast = SearchFast"
    "m_searching sweeping_fast" "tunerEnabled sweeping_fast"
    by (simp_all add: sweeping_fast_def sweeping_id_def tuned_90000_def constructed_def
        tunerEnabled_def)
  have c: "m_searchAll sweeping_id_none" "m_searchMode sweeping_id_none = SearchGetStationId"
    "m_firstFoundFrequency sweeping_id_none = 0"
    by (simp_all add: sweeping_id_none_def sweeping_id_def)
  have d: "m_searchAll sweeping_id" "m_searchMode sweeping_id = SearchGetStationId"
    "m_firstFoundFrequency sweeping_id \<noteq> 0" "tunerEnabled sweeping_id"
    "FREQ_HAL_TO_QT (m_currentFreq sweeping_id) = 90000000" "m_stationId sweeping_id = []"
    by (simp_all add: sweeping_id_def tuned_90000_def constructed_def tunerEnabled_def
        FREQ_HAL_TO_QT_def)
  have A: "handleSeekTimeout hal_ok tuned_90000 = cancelSearch hal_ok tuned_90000"
    using handleSeekTimeout_cases [of tuned_90000 hal_ok] a by blast
  have B: "handleSeekTimeout hal_ok sweeping_fast = cancelSearch hal_ok sweeping_fast"
    using handleSeekTimeout_cases [of sweeping_fast hal_ok] b by blast
  have C: "handleSeekTimeout hal_ok sweeping_id_none = cancelSearch hal_ok sweeping_id_none"
    using handleSeekTimeout_cases [of sweeping_id_none hal_ok] c by blast
  have "emitted_since sweeping_id (handleSeekTimeout hal_ok sweeping_id) =
          [StationFound (FREQ_HAL_TO_QT (m_currentFreq sweeping_id)) (m_stationId sweeping_id),
           HalScan RADIO_DIRECTION_UP]"
    using handleSeekTimeout_cases [of sweeping_id hal_ok] d(1-4) by blast
  then have D: "emitted_since sweeping_id (handleSeekTimeout hal_ok sweeping_id) =
          [StationFound 90000000 [], HalScan RADIO_DIRECTION_UP]"
    by (simp only: d(5) d(6))
  have "cancelSearch hal_ok sweeping_fast =
        sweeping_fast\<lparr>seekTimer_active := False, m_searching := False, m_searchAll := False,
          m_searchAllLast := False, m_searchWaitForRDS := False,
          effects := effects sweeping_fast @ [HalCancel, SearchingChanged False]\<rparr>"
    using handleSeekTimeout_cases [of sweeping_fast hal_ok] b(3,4) by blast
  then have E: "\<not> m_searching (cancelSearch hal_ok sweeping_fast)"
    by simp
  from a b c d(1-4) A B C D E show ?thesis
    by blast
qed

subsection \<open>Sanitising metadata text\<close>

text \<open>
  C6.  The sanitiser is to remove from every text value of a metadata record each character
  that is not a letter, a digit, a space or one of the punctuation marks the pattern
  writes, so that only characters of that allow-list remain.  The code does not do so.  In
  the character class the hyphen of \<^verbatim>\<open> -_\<close> stands unescaped between the space and the
  underscore and makes the two a range; the nine characters \<^verbatim>\<open>" ' * < > [ \ ] ^\<close> of that
  range stay in the text.  A metadata event that carries the station name \<^verbatim>\<open><b>"'*[\]^\<close>
  to a newly constructed object has it stored and signalled unchanged; of its ten
  characters only \<^verbatim>\<open>b\<close> is on the allow-list.
\<close>

theorem handleMetadata_keeps_range_only:
  "m_stationName (handleMetadata slip_event constructed) = slip_text \<and>
   emitted_since constructed (handleMetadata slip_event constructed)
     = [StationNameChanged slip_text] \<and>
   \<not> list_all allow_list (m_stationName (handleMetadata slip_event constructed)) \<and>
   filter allow_list slip_text = [0x62]"
proof -
  have s: "sanitize slip_text = slip_text"
    by (simp add: slip_text_def sanitize_def trimmed_def remove_regExp_def regExp_class_def
        regExp_ranges_def regExp_singles_def QChar_isSpace_def)
  have ne: "slip_text \<noteq> []" by (simp add: slip_text_def)
  have n: "m_stationName (handleMetadata slip_event constructed) = slip_text"
    using ne
    by (simp add: handleMetadata_def slip_event_def metadata_text_def Let_def s emit_def
        constructed_def)
  have e: "emitted_since constructed (handleMetadata slip_event constructed)
             = [StationNameChanged slip_text]"
    using ne
    by (simp add: handleMetadata_def slip_event_def metadata_text_def Let_def s emit_def
        constructed_def emitted_since_def)
  have f: "filter allow_list slip_text = [0x62]"
    by (simp add: slip_text_def allow_list_def is_letter_def is_digit_def punctuation_def)
  have "\<not> list_all allow_list slip_text"
    by (simp add: slip_text_def allow_list_def is_letter_def is_digit_def punctuation_def)
  with n e f show ?thesis by simp
qed

subsection \<open>The current frequency and the band limits\<close>

text \<open>
  C5 as stated fails: right after construction the current frequency is 0, the value that
  \<open>setTuning\<close> treats as "no frequency yet", and \<open>setFrequency\<close> returns before clamping
  when the converted request equals the current frequency.  A request of 500 Hz converts to
  0 kHz and leaves the current frequency at 0, below the lower limit 87500.
\<close>

theorem currentFreq_in_band_counterexample:
  "\<not> in_band (step hal_ok (SetFrequency 500) constructed)"
  by (simp add: in_band_def setFrequency_currentFreq setFrequency_limits FREQ_QT_TO_HAL_def
      constructed_def)

text \<open>
  C5, amended.  With \<open>lower_limit \<le> upper_limit\<close>: \<open>setFrequency\<close> leaves the current
  native frequency within the band whenever the converted request differs from the current
  frequency (for every request, negative and above-range ones included) or the frequency
  was within the band before; \<open>handleTuned\<close> stores the channel the hardware reports, so the
  frequency is within the band afterwards when that channel is; every other public
  operation and event handler leaves a frequency that is within the band there.
\<close>

theorem currentFreq_in_band_step:
  assumes "lower_limit s \<le> upper_limit s" and "keeps_in_band s op"
  shows "in_band (step hw op s)"
proof (cases op)
  case (SetFrequency f)
  with assms show ?thesis by (simp add: setFrequency_in_band)
next
  case (HandleTuned channel stereo)
  with assms show ?thesis by (simp add: in_band_def handleTuned_band)
qed (use assms in \<open>simp_all add: searchForward_def searchBackward_def
      sfb_in_band [OF sfb_helpers(7)] sfb_in_band [OF sfb_helpers(8)]
      sfb_in_band [OF sfb_searchAllStations] sfb_in_band [OF sfb_cancelSearch]
      sfb_in_band [OF sfb_start] sfb_in_band [OF sfb_stop]
      sfb_in_band [OF sfb_handleSeekTimeout] sfb_in_band [OF sfb_handleHwFailure]
      sfb_in_band [OF sfb_handleConfig] sfb_in_band [OF sfb_handleMetadata]\<close>)

theorem currentFreq_in_band_step_witness:
  "lower_limit constructed \<le> upper_limit constructed \<and>
   keeps_in_band constructed (SetFrequency (- 5000)) \<and>
   in_band (step hal_ok (SetFrequency (- 5000)) constructed)"
proof -
  have a: "lower_limit constructed \<le> upper_limit constructed"
    by (simp add: constructed_def)
  have b: "keeps_in_band constructed (SetFrequency (- 5000))"
    by (simp add: constructed_def FREQ_QT_TO_HAL_def)
  from a b currentFreq_in_band_step [OF a b] show ?thesis by blast
qed

subsection \<open>The step of a fast sweep that uses up the range\<close>

text \<open>
  C2.  When a tuned event during a fast sweep makes the remaining range \<open>\<le> 0\<close> and the new
  channel differs from the first-found frequency as recorded when \<open>tunedSearchAll\<close>
  compares the two, the step reports the new channel: a \<open>stationFound\<close> signal carrying
  the frequency of the final channel is emitted, on entry to the step.  The step then also
  emits \<open>stationFound\<close> for the recorded first-found frequency, whose report was held back
  when it was found, and \<open>tunedSearchAll\<close> returns false, upon which \<open>handleTuned\<close>
  finalises the sweep: the sweep flags and \<open>m_searching\<close> are cleared, and
  \<open>searchingChanged(false)\<close> and \<open>frequencyChanged\<close> follow.
\<close>

theorem tunedSearchAll_final_step_fast:
  assumes "m_searchMode s = SearchFast" and "m_searchAll s" and "\<not> m_searchAllLast s"
    and "sint (m_searchRange s - reduce_of s channel) \<le> 0"
    and "m_firstFoundFrequency (snd (tunedSearchAll hw channel s)) \<noteq> channel"
  shows "\<not> fst (tunedSearchAll hw channel s) \<and>
         emitted_since s (snd (tunedSearchAll hw channel s)) =
           [StationFound (FREQ_HAL_TO_QT channel) (m_stationId s),
            StationFound (FREQ_HAL_TO_QT (m_firstFoundFrequency s)) (m_stationId s)] \<and>
         emitted_since s (handleTuned hw channel stereo s) =
           [StationFound (FREQ_HAL_TO_QT channel) (m_stationId s),
            StationFound (FREQ_HAL_TO_QT (m_firstFoundFrequency s)) (m_stationId s)] @
           (if m_searching s then [SearchingChanged False] else []) @
           [FrequencyChanged (FREQ_HAL_TO_QT channel)] @
           (if stereo \<noteq> m_stereoEnabled s then [StereoStatusChanged stereo] else []) \<and>
         \<not> m_searching (handleTuned hw channel stereo s) \<and>
         \<not> m_searchAll (handleTuned hw channel stereo s) \<and>
         \<not> m_searchAllLast (handleTuned hw channel stereo s) \<and>
         \<not> m_searchWaitForRDS (handleTuned hw channel stereo s)"
proof -
  let ?s0 = "s\<lparr>m_currentFreq := channel\<rparr>"
  have s0: "m_searchMode ?s0 = SearchFast" "m_searchAll ?s0"
    using assms(1,2) by simp_all
  have ff: "m_firstFoundFrequency s \<noteq> 0" "m_firstFoundFrequency s \<noteq> channel"
    using assms(5) by (simp_all add: tunedSearchAll_fast_fields [OF assms(1,2)] word_gt_0
        split: if_splits)
  have r0: "reduce_of ?s0 channel = reduce_of s channel"
    by (rule reduce_of_currentFreq)
  have a: "\<not> fst (tunedSearchAll hw channel s)"
    using assms(1-4) by (simp add: tunedSearchAll_fast_fields)
  have b: "emitted_since s (snd (tunedSearchAll hw channel s)) =
           [StationFound (FREQ_HAL_TO_QT channel) (m_stationId s),
            StationFound (FREQ_HAL_TO_QT (m_firstFoundFrequency s)) (m_stationId s)]"
    using assms(1-4) ff by (simp add: emitted_since_def tunedSearchAll_fast_effects word_gt_0)
  have h: "handleTuned hw channel stereo s =
           handleTuned_done stereo (snd (tunedSearchAll hw channel ?s0))"
    using assms(1-4) by (rule handleTuned_fast_final)
  have c: "emitted_since s (handleTuned hw channel stereo s) =
           [StationFound (FREQ_HAL_TO_QT channel) (m_stationId s),
            StationFound (FREQ_HAL_TO_QT (m_firstFoundFrequency s)) (m_stationId s)] @
           (if m_searching s then [SearchingChanged False] else []) @
           [FrequencyChanged (FREQ_HAL_TO_QT channel)] @
           (if stereo \<noteq> m_stereoEnabled s then [StereoStatusChanged stereo] else [])"
    using assms(1-4) ff
    by (simp add: h emitted_since_def handleTuned_done_effects
        tunedSearchAll_fast_effects [OF s0] tunedSearchAll_fast_fields [OF s0]
        tunedSearchAll_limits r0 word_gt_0)
  have d: "\<not> m_searching (handleTuned hw channel stereo s)"
    "\<not> m_searchAllLast (handleTuned hw channel stereo s)"
    by (simp_all add: h handleTuned_done_flags)
  have e: "\<not> m_searchAll (handleTuned hw channel stereo s)"
    "\<not> m_searchWaitForRDS (handleTuned hw channel stereo s)"
    using assms(1-4)
    by (simp_all add: h handleTuned_done_flags tunedSearchAll_fast_fields [OF s0] r0)
  from a b c d e show ?thesis by simp
qed

theorem tunedSearchAll_final_step_fast_witness:
  "m_searchMode last_step_fast = SearchFast \<and> m_searchAll last_step_fast \<and>
   \<not> m_searchAllLast last_step_fast \<and>
   sint (m_searchRange last_step_fast - reduce_of last_step_fast 90000) \<le> 0 \<and>
   m_firstFoundFrequency (snd (tunedSearchAll hal_ok 90000 last_step_fast)) \<noteq> 90000 \<and>
   emitted_since last_step_fast (handleTuned hal_ok 90000 True last_step_fast) =
     [StationFound 90000000 [], StationFound 95000000 [], SearchingChanged False,
      FrequencyChanged 90000000] \<and>
   \<not> m_searching (handleTuned hal_ok 90000 True last_step_fast)"
proof -
  have h: "m_searchMode last_step_fast = SearchFast" "m_searchAll last_step_fast"
    "\<not> m_searchAllLast last_step_fast"
    "sint (m_searchRange last_step_fast - reduce_of last_step_fast 90000) \<le> 0"
    by (simp_all add: last_step_fast_def tuned_90000_def constructed_def reduce_of_def)
  have h5: "m_firstFoundFrequency (snd (tunedSearchAll hal_ok 90000 last_step_fast)) \<noteq> 90000"
    by (simp add: tunedSearchAll_fast_fields [OF h(1,2)]) (simp add: last_step_fast_def)
  have v: "m_stationId last_step_fast = []" "m_searching last_step_fast"
    "m_stereoEnabled last_step_fast" "FREQ_HAL_TO_QT 90000 = 90000000"
    "FREQ_HAL_TO_QT (m_firstFoundFrequency last_step_fast) = 95000000"
    by (simp_all add: last_step_fast_def tuned_90000_def constructed_def FREQ_HAL_TO_QT_def)
  from tunedSearchAll_final_step_fast [OF h h5, of True] h h5 v show ?thesis
    by simp
qed

subsection \<open>Reports and termination of a fast sweep\<close>




end
